theory Spec2Isabelle
  imports Main "HOL-Library.Word" "HOL-Library.Code_Target_Nat"
begin

unbundle bit_operations_syntax

section \<open>Shared conventions\<close>

text \<open>
  A \<^verbatim>\<open>void*\<close> is a 64-bit word: \<^verbatim>\<open>nullptr\<close> is 0 and \<^verbatim>\<open>MAP_FAILED\<close> is
  \<^verbatim>\<open>(void*)-1\<close>. A C++ \<^verbatim>\<open>throw\<close> carries either an object derived from
  \<^verbatim>\<open>std::exception\<close>, with its \<^verbatim>\<open>what()\<close> text, or an object of some other type.
  Wall-clock fields of type \<^verbatim>\<open>time_point\<close> that no operation ever reads back (the
  timestamp inside \<^verbatim>\<open>LifecycleState\<close>, \<^verbatim>\<open>create_time\<close>, the timestamp of a
  \<^verbatim>\<open>SavedState\<close>, \<^verbatim>\<open>load_time\<close>, \<^verbatim>\<open>start_time\<close>) are left out of the records; the
  one clock reading that decides a branch, in the rate limiter, is an argument. Output to
  \<^verbatim>\<open>std::cout\<close> is not modelled; memory exhaustion inside string and container
  operations is not modelled, except where a function turns it into a result of its own.
\<close>

type_synonym ptr = "64 word"

definition nullptr :: ptr where
  "nullptr = 0"

definition MAP_FAILED :: ptr where
  "MAP_FAILED = - 1"

datatype fault = StdException string | OtherThrow

section \<open>Component lifecycle: \<^verbatim>\<open>src/android/activity.cpp\<close>\<close>

datatype LifecycleValue = Created | Started | Resumed | Paused | Stopped | Destroyed

record Intent =
  intent_action :: string
  intent_data :: string
  intent_categories :: "string list"
  intent_type :: string
  intent_package :: string
  intent_component :: string
  intent_is_explicit :: bool

record SavedState =
  sv_data :: "(string \<times> string) list"
  sv_is_finishing :: bool
  sv_has_focus :: bool

text \<open>The members of \<^verbatim>\<open>Activity::Impl\<close>; \<open>state_value\<close> is \<^verbatim>\<open>state.value\<close>.\<close>

record Activity_Impl =
  package_name :: string
  activity_name :: string
  state_value :: LifecycleValue
  system_services :: "string \<rightharpoonup> ptr"
  is_finishing :: bool
  lifecycle_log :: "string list"
  has_window_focus :: bool
  saved_state :: SavedState

definition logLifecycleEvent :: "string \<Rightarrow> Activity_Impl \<Rightarrow> Activity_Impl" where
  "logLifecycleEvent event s =
     s\<lparr>lifecycle_log := lifecycle_log s @ [''Activity '' @ activity_name s @ '': '' @ event]\<rparr>"

text \<open>The constructor \<^verbatim>\<open>Impl()\<close>: the member initialisers, then the first log entry.\<close>

definition Activity_Impl_new :: Activity_Impl where
  "Activity_Impl_new =
     logLifecycleEvent ''Constructed''
       \<lparr>package_name = ''com.example.app'',
        activity_name = ''MainActivity'',
        state_value = Created,
        system_services = Map.empty,
        is_finishing = False,
        lifecycle_log = [],
        has_window_focus = False,
        saved_state = \<lparr>sv_data = [], sv_is_finishing = False, sv_has_focus = False\<rparr>\<rparr>"

definition initializeSystemServices :: "Activity_Impl \<Rightarrow> Activity_Impl" where
  "initializeSystemServices s =
     logLifecycleEvent ''System services initialized''
       (s\<lparr>system_services :=
            (system_services s)
              (''window'' \<mapsto> nullptr,
               ''layout_inflater'' \<mapsto> nullptr,
               ''activity'' \<mapsto> nullptr,
               ''input_method'' \<mapsto> nullptr,
               ''location'' \<mapsto> nullptr)\<rparr>)"

definition cleanupSystemServices :: "Activity_Impl \<Rightarrow> Activity_Impl" where
  "cleanupSystemServices s =
     logLifecycleEvent ''System services cleaned up'' (s\<lparr>system_services := Map.empty\<rparr>)"

definition onCreate :: "Activity_Impl \<Rightarrow> Activity_Impl" where
  "onCreate s =
     (if state_value s \<noteq> Created then s
      else (initializeSystemServices (logLifecycleEvent ''onCreate called'' s))
             \<lparr>state_value := Created\<rparr>)"

definition onStart :: "Activity_Impl \<Rightarrow> Activity_Impl" where
  "onStart s =
     (if state_value s \<noteq> Created \<and> state_value s \<noteq> Stopped then s
      else (logLifecycleEvent ''onStart called'' s)\<lparr>state_value := Started\<rparr>)"

definition onResume :: "Activity_Impl \<Rightarrow> Activity_Impl" where
  "onResume s =
     (if state_value s \<noteq> Started \<and> state_value s \<noteq> Paused then s
      else (logLifecycleEvent ''onResume called'' s)\<lparr>state_value := Resumed\<rparr>)"

definition onPause :: "Activity_Impl \<Rightarrow> Activity_Impl" where
  "onPause s =
     (if state_value s \<noteq> Resumed then s
      else (logLifecycleEvent ''onPause called'' s)\<lparr>state_value := Paused\<rparr>)"

definition onStop :: "Activity_Impl \<Rightarrow> Activity_Impl" where
  "onStop s =
     (if state_value s \<noteq> Paused then s
      else (logLifecycleEvent ''onStop called'' s)\<lparr>state_value := Stopped\<rparr>)"

definition onDestroy :: "Activity_Impl \<Rightarrow> Activity_Impl" where
  "onDestroy s =
     (if state_value s = Destroyed then s
      else (cleanupSystemServices (logLifecycleEvent ''onDestroy called'' s))
             \<lparr>state_value := Destroyed\<rparr>)"

text \<open>
  \<^verbatim>\<open>onSaveInstanceState\<close> overwrites the caller's \<^verbatim>\<open>outState\<close> completely, so the
  model returns the snapshot it leaves there, next to the instance.
\<close>

definition onSaveInstanceState :: "Activity_Impl \<Rightarrow> SavedState \<times> Activity_Impl" where
  "onSaveInstanceState s =
     (let s1 = logLifecycleEvent ''Saving instance state'' s;
          outState = (saved_state s1)
                       \<lparr>sv_is_finishing := is_finishing s1, sv_has_focus := has_window_focus s1\<rparr>
      in (outState, s1))"

definition onRestoreInstanceState :: "SavedState \<Rightarrow> Activity_Impl \<Rightarrow> Activity_Impl" where
  "onRestoreInstanceState savedState s =
     (logLifecycleEvent ''Restoring instance state'' s)
       \<lparr>saved_state := savedState, has_window_focus := sv_has_focus savedState\<rparr>"

definition onWindowFocusChanged :: "bool \<Rightarrow> Activity_Impl \<Rightarrow> Activity_Impl" where
  "onWindowFocusChanged hasFocus s =
     logLifecycleEvent
       (''Window focus changed: '' @ (if hasFocus then ''gained focus'' else ''lost focus''))
       (s\<lparr>has_window_focus := hasFocus\<rparr>)"

definition startActivity_from :: "Intent \<Rightarrow> Activity_Impl \<Rightarrow> Activity_Impl" where
  "startActivity_from intent s =
     logLifecycleEvent (''Starting new activity: '' @ intent_action intent) s"

definition finish :: "Activity_Impl \<Rightarrow> Activity_Impl" where
  "finish s =
     (if \<not> is_finishing s
      then onDestroy (onStop (onPause
             (logLifecycleEvent ''Activity finishing'' (s\<lparr>is_finishing := True\<rparr>))))
      else s)"

text \<open>The six lifecycle calls, and every call of the public interface that changes the instance.\<close>

datatype lifecycle_call = OnCreate | OnStart | OnResume | OnPause | OnStop | OnDestroy

fun lifecycle_step :: "lifecycle_call \<Rightarrow> Activity_Impl \<Rightarrow> Activity_Impl" where
  "lifecycle_step OnCreate s = onCreate s"
| "lifecycle_step OnStart s = onStart s"
| "lifecycle_step OnResume s = onResume s"
| "lifecycle_step OnPause s = onPause s"
| "lifecycle_step OnStop s = onStop s"
| "lifecycle_step OnDestroy s = onDestroy s"

fun run_lifecycle :: "lifecycle_call list \<Rightarrow> Activity_Impl \<Rightarrow> Activity_Impl" where
  "run_lifecycle [] s = s"
| "run_lifecycle (c # cs) s = run_lifecycle cs (lifecycle_step c s)"

datatype activity_call =
    Lifecycle lifecycle_call
  | SaveInstanceState
  | RestoreInstanceState SavedState
  | WindowFocusChanged bool
  | StartActivity Intent
  | Finish

fun activity_step :: "activity_call \<Rightarrow> Activity_Impl \<Rightarrow> Activity_Impl" where
  "activity_step (Lifecycle c) s = lifecycle_step c s"
| "activity_step SaveInstanceState s = snd (onSaveInstanceState s)"
| "activity_step (RestoreInstanceState sv) s = onRestoreInstanceState sv s"
| "activity_step (WindowFocusChanged b) s = onWindowFocusChanged b s"
| "activity_step (StartActivity i) s = startActivity_from i s"
| "activity_step Finish s = finish s"

fun run_activity :: "activity_call list \<Rightarrow> Activity_Impl \<Rightarrow> Activity_Impl" where
  "run_activity [] s = s"
| "run_activity (c # cs) s = run_activity cs (activity_step c s)"

text \<open>
  The transition table of section 4.2 of the specification, row by row: the state a call
  leads to from a state it is valid from, and \<open>None\<close> where the call is to be ignored.
\<close>

fun table_4_2 :: "lifecycle_call \<Rightarrow> LifecycleValue \<Rightarrow> LifecycleValue option" where
  "table_4_2 OnCreate v = (if v = Created then Some Created else None)"
| "table_4_2 OnStart v = (if v = Created \<or> v = Stopped then Some Started else None)"
| "table_4_2 OnResume v = (if v = Started \<or> v = Paused then Some Resumed else None)"
| "table_4_2 OnPause v = (if v = Resumed then Some Paused else None)"
| "table_4_2 OnStop v = (if v = Paused then Some Stopped else None)"
| "table_4_2 OnDestroy v = (if v \<noteq> Destroyed then Some Destroyed else None)"

text \<open>
  The invariant behind \<open>finish\<close>: the finishing flag is set by \<open>finish\<close> alone, which
  ends in \<open>Destroyed\<close>, a state no call leaves, so a set flag means \<open>Destroyed\<close>.
\<close>

definition finishing_inv :: "Activity_Impl \<Rightarrow> bool" where
  "finishing_inv s = (\<not> is_finishing s \<or> state_value s = Destroyed)"

section \<open>Library functions the sources call\<close>

text \<open>
  \<^verbatim>\<open>std::to_string(int)\<close>: a minus sign for a negative value, then the decimal
  digits of the magnitude, most significant first.
\<close>

function decimal_digits :: "nat \<Rightarrow> nat list" where
  "decimal_digits n = (if n < 10 then [n] else decimal_digits (n div 10) @ [n mod 10])"
  by pat_completeness auto
termination
  by (relation "measure id") auto

definition digit_char :: "nat \<Rightarrow> char" where
  "digit_char d = char_of (of_char CHR ''0'' + d)"

definition to_string :: "int \<Rightarrow> string" where
  "to_string i =
     (if i < 0 then ''-'' else []) @ map digit_char (decimal_digits (nat \<bar>i\<bar>))"

text \<open>
  \<^verbatim>\<open>std::stoull(str)\<close> in base 10, as \<^verbatim>\<open>strtoull\<close> reads it: leading white space is
  skipped, one sign is accepted, the longest run of decimal digits is converted and what
  follows it is ignored. No digit at all throws \<^verbatim>\<open>std::invalid_argument\<close>, a magnitude
  above \<^verbatim>\<open>ULLONG_MAX\<close> throws \<^verbatim>\<open>std::out_of_range\<close> (both with \<^verbatim>\<open>what()\<close> equal to
  \<^verbatim>\<open>"stoull"\<close> in libstdc++), and a minus sign negates the value modulo \<open>2 ^ 64\<close>.
\<close>

definition isspace :: "char \<Rightarrow> bool" where
  "isspace c = ((of_char c :: nat) = 32 \<or> (9 \<le> (of_char c :: nat) \<and> (of_char c :: nat) \<le> 13))"

definition isdigit :: "char \<Rightarrow> bool" where
  "isdigit c = (48 \<le> (of_char c :: nat) \<and> (of_char c :: nat) \<le> 57)"

definition digits_value :: "string \<Rightarrow> nat" where
  "digits_value ds = foldl (\<lambda>acc c. acc * 10 + ((of_char c :: nat) - 48)) 0 ds"

definition ULLONG_MAX :: nat where
  "ULLONG_MAX = 18446744073709551615"

definition stoull :: "string \<Rightarrow> fault + 64 word" where
  "stoull str =
     (let s1 = dropWhile isspace str;
          negative = (s1 \<noteq> [] \<and> hd s1 = CHR ''-'');
          s2 = (if s1 \<noteq> [] \<and> (hd s1 = CHR ''-'' \<or> hd s1 = CHR ''+'') then tl s1 else s1);
          ds = takeWhile isdigit s2
      in if ds = [] then Inl (StdException ''stoull'')
         else if digits_value ds > ULLONG_MAX then Inl (StdException ''stoull'')
         else Inr (if negative then - word_of_nat (digits_value ds)
                   else word_of_nat (digits_value ds)))"

text \<open>
  \<^verbatim>\<open>std::chrono::duration_cast<std::chrono::seconds>\<close> of a difference of two
  \<^verbatim>\<open>system_clock\<close> readings. A reading is the clock's tick count, in nanoseconds (the
  period of libstdc++); the cast divides by \<open>10 ^ 9\<close> and truncates towards zero.
\<close>

type_synonym time_point = int

definition duration_cast_seconds :: "int \<Rightarrow> int" where
  "duration_cast_seconds ticks =
     (if ticks < 0 then - ((- ticks) div 1000000000) else ticks div 1000000000)"

section \<open>Capability gateway: \<^verbatim>\<open>src/android/api.cpp\<close>\<close>

datatype APILevel =
  ANDROID_10 | ANDROID_11 | ANDROID_12 | ANDROID_12L | ANDROID_13 | ANDROID_14

fun APILevel_int :: "APILevel \<Rightarrow> int" where
  "APILevel_int ANDROID_10 = 29"
| "APILevel_int ANDROID_11 = 30"
| "APILevel_int ANDROID_12 = 31"
| "APILevel_int ANDROID_12L = 32"
| "APILevel_int ANDROID_13 = 33"
| "APILevel_int ANDROID_14 = 34"

record APIConfig =
  cfg_package_name :: string
  cfg_version_name :: string
  cfg_version_code :: int
  cfg_min_sdk_level :: APILevel
  cfg_target_sdk_level :: APILevel

record APIResponse =
  success :: bool
  data :: string
  error :: string

text \<open>
  A \<^verbatim>\<open>std::function\<close> called for its effect is a transformer of the host's state
  \<open>'w\<close>, everything outside the gateway that the callable can reach, which also says
  whether an exception left the call. A request carries a callable callback.
\<close>

type_synonym 'w proc = "'w \<Rightarrow> fault option \<times> 'w"

record 'w APIRequest =
  req_method :: string
  req_params :: "string \<rightharpoonup> string"
  req_callback :: "APIResponse \<Rightarrow> 'w proc"

text \<open>
  The entries of the handler registry. The three handlers that
  \<^verbatim>\<open>registerDefaultHandlers\<close> installs are closures over \<^verbatim>\<open>this\<close> and reach the
  gateway's own state; a handler a client registers reaches the host's state only (a
  handler that calls back into the same gateway would block on \<^verbatim>\<open>handlers_mutex\<close>).
\<close>

datatype 'w handler =
    GetApiLevel
  | CheckPermission
  | RegisterNativeMethod
  | ClientHandler "'w APIRequest \<Rightarrow> 'w proc"

text \<open>The members of \<^verbatim>\<open>API::Impl\<close>, those of the nested \<^verbatim>\<open>APIState\<close> first.\<close>

record 'w API_Impl =
  initialized :: bool
  api_package_name :: string
  api_version_name :: string
  api_version_code :: int
  min_sdk_level :: APILevel
  target_sdk_level :: APILevel
  native_functions :: "string \<rightharpoonup> ptr"
  handlers :: "string \<rightharpoonup> 'w handler"
  last_rate_reset :: time_point
  api_calls_count :: int

definition MAX_API_CALLS_PER_SECOND :: int where
  "MAX_API_CALLS_PER_SECOND = 1000"

definition registerHandler :: "string \<Rightarrow> 'w handler \<Rightarrow> 'w API_Impl \<Rightarrow> 'w API_Impl" where
  "registerHandler name h s = s\<lparr>handlers := (handlers s)(name \<mapsto> h)\<rparr>"

definition registerDefaultHandlers :: "'w API_Impl \<Rightarrow> 'w API_Impl" where
  "registerDefaultHandlers s =
     registerHandler ''registerNativeMethod'' RegisterNativeMethod
       (registerHandler ''checkPermission'' CheckPermission
         (registerHandler ''getApiLevel'' GetApiLevel s))"

text \<open>The constructor reads the clock once, for \<^verbatim>\<open>last_rate_reset\<close>.\<close>

definition API_Impl_new :: "time_point \<Rightarrow> 'w API_Impl" where
  "API_Impl_new now =
     registerDefaultHandlers
       \<lparr>initialized = False,
        api_package_name = [],
        api_version_name = [],
        api_version_code = 0,
        min_sdk_level = ANDROID_10,
        target_sdk_level = ANDROID_13,
        native_functions = Map.empty,
        handlers = Map.empty,
        last_rate_reset = now,
        api_calls_count = 0\<rparr>"

definition initialize :: "APIConfig \<Rightarrow> 'w API_Impl \<Rightarrow> fault + 'w API_Impl" where
  "initialize config s =
     (if initialized s then Inl (StdException ''API already initialized'')
      else Inr (s\<lparr>api_package_name := cfg_package_name config,
                  api_version_name := cfg_version_name config,
                  api_version_code := cfg_version_code config,
                  min_sdk_level := cfg_min_sdk_level config,
                  target_sdk_level := cfg_target_sdk_level config,
                  initialized := True\<rparr>))"

text \<open>
  A handler's run gives the exception that left it, if any, the gateway's state and the
  host's state. \<^verbatim>\<open>params.at(key)\<close> throws \<^verbatim>\<open>std::out_of_range\<close> for a missing key.
\<close>

definition handleGetApiLevel ::
  "'w APIRequest \<Rightarrow> 'w API_Impl \<Rightarrow> 'w \<Rightarrow> fault option \<times> 'w API_Impl \<times> 'w" where
  "handleGetApiLevel req s w =
     (let api_level = APILevel_int (target_sdk_level s);
          (f, w1) = req_callback req
                      \<lparr>success = True, data = to_string api_level, error = []\<rparr> w
      in (f, s, w1))"

definition handleCheckPermission ::
  "'w APIRequest \<Rightarrow> 'w API_Impl \<Rightarrow> 'w \<Rightarrow> fault option \<times> 'w API_Impl \<times> 'w" where
  "handleCheckPermission req s w =
     (case req_params req ''permission'' of
        None \<Rightarrow> (Some (StdException ''map::at''), s, w)
      | Some permission \<Rightarrow>
          (let granted =
                 (permission = ''android.permission.INTERNET'' \<or>
                  permission = ''android.permission.READ_EXTERNAL_STORAGE'' \<or>
                  permission = ''android.permission.WRITE_EXTERNAL_STORAGE'');
               (f, w1) = req_callback req
                           \<lparr>success = True,
                            data = (if granted then ''granted'' else ''denied''),
                            error = []\<rparr> w
           in (f, s, w1)))"

definition handleRegisterNativeMethod ::
  "'w APIRequest \<Rightarrow> 'w API_Impl \<Rightarrow> 'w \<Rightarrow> fault option \<times> 'w API_Impl \<times> 'w" where
  "handleRegisterNativeMethod req s w =
     (case req_params req ''name'' of
        None \<Rightarrow> (Some (StdException ''map::at''), s, w)
      | Some method_name \<Rightarrow>
          (case req_params req ''pointer'' of
             None \<Rightarrow> (Some (StdException ''map::at''), s, w)
           | Some pointer \<Rightarrow>
               (case stoull pointer of
                  Inl e \<Rightarrow> (Some e, s, w)
                | Inr method_ptr \<Rightarrow>
                    (let s1 = s\<lparr>native_functions :=
                                  (native_functions s)(method_name \<mapsto> method_ptr)\<rparr>;
                         (f, w1) = req_callback req
                                     \<lparr>success = True,
                                      data = ''Native method registered: '' @ method_name,
                                      error = []\<rparr> w
                     in (f, s1, w1)))))"

fun run_handler ::
  "'w handler \<Rightarrow> 'w APIRequest \<Rightarrow> 'w API_Impl \<Rightarrow> 'w \<Rightarrow> fault option \<times> 'w API_Impl \<times> 'w" where
  "run_handler GetApiLevel req s w = handleGetApiLevel req s w"
| "run_handler CheckPermission req s w = handleCheckPermission req s w"
| "run_handler RegisterNativeMethod req s w = handleRegisterNativeMethod req s w"
| "run_handler (ClientHandler h) req s w = (let (f, w1) = h req w in (f, s, w1))"

definition checkRateLimit :: "time_point \<Rightarrow> 'w API_Impl \<Rightarrow> bool \<times> 'w API_Impl" where
  "checkRateLimit now s =
     (let elapsed = duration_cast_seconds (now - last_rate_reset s);
          s1 = (if elapsed \<ge> 1 then s\<lparr>api_calls_count := 0, last_rate_reset := now\<rparr> else s)
      in if api_calls_count s1 \<ge> MAX_API_CALLS_PER_SECOND then (False, s1)
         else (True, s1\<lparr>api_calls_count := api_calls_count s1 + 1\<rparr>))"

text \<open>
  \<^verbatim>\<open>handleRequest\<close>; \<open>now\<close> is the clock reading \<^verbatim>\<open>checkRateLimit\<close> takes. The
  \<^verbatim>\<open>catch\<close> clause names \<^verbatim>\<open>const std::exception&\<close>: an object of another type
  passes through it. The first component of the result is the exception that leaves
  \<^verbatim>\<open>handleRequest\<close>, if any.
\<close>

definition handleRequest ::
  "'w APIRequest \<Rightarrow> time_point \<Rightarrow> 'w API_Impl \<Rightarrow> 'w \<Rightarrow> fault option \<times> 'w API_Impl \<times> 'w" where
  "handleRequest request now s w =
     (if \<not> initialized s then
        (let (f, w1) = req_callback request
                         \<lparr>success = False, data = [], error = ''API not initialized''\<rparr> w
         in (f, s, w1))
      else
        (case checkRateLimit now s of
           (False, s1) \<Rightarrow>
             (let (f, w1) = req_callback request
                              \<lparr>success = False, data = [], error = ''Rate limit exceeded''\<rparr> w
              in (f, s1, w1))
         | (True, s1) \<Rightarrow>
             (case handlers s1 (req_method request) of
                None \<Rightarrow>
                  (let (f, w1) = req_callback request
                                   \<lparr>success = False, data = [],
                                    error = ''Unknown method: '' @ req_method request\<rparr> w
                   in (f, s1, w1))
              | Some h \<Rightarrow>
                  (case run_handler h request s1 w of
                     (Some (StdException what), s2, w2) \<Rightarrow>
                       (let (f, w3) = req_callback request
                                        \<lparr>success = False, data = [],
                                         error = ''Handler error: '' @ what\<rparr> w2
                        in (f, s2, w3))
                   | r \<Rightarrow> r))))"


section \<open>Package loader: \<^verbatim>\<open>src/core/executor.cpp\<close>\<close>

record ApkInfo =
  apk_package_name :: string
  apk_version_name :: string
  apk_version_code :: "32 word"
  min_sdk :: string
  target_sdk :: string
  permissions :: "string list"
  main_activity :: string
  apk_path :: string

datatype ExecutionState =
  ES_NotStarted | ES_Loading | ES_Running | ES_Paused | ES_Stopped | ES_Error

fun ExecutionState_int :: "ExecutionState \<Rightarrow> int" where
  "ExecutionState_int ES_NotStarted = 0"
| "ExecutionState_int ES_Loading = 1"
| "ExecutionState_int ES_Running = 2"
| "ExecutionState_int ES_Paused = 3"
| "ExecutionState_int ES_Stopped = 4"
| "ExecutionState_int ES_Error = 5"

datatype Result =
    Success
  | InvalidApk
  | RuntimeError
  | SecurityError
  | GraphicsError
  | PermissionDenied
  | UnsupportedApi
  | MemoryError
  | NetworkError

record ExecutorConfig =
  enable_graphics :: bool
  enable_sound :: bool
  enable_network :: bool
  sandbox_mode :: bool
  data_dir :: string
  allowed_permissions :: "string list"

text \<open>
  The members of \<^verbatim>\<open>Executor::Impl\<close>. A callback member is modelled by whether one is
  installed; the messages an installed event callback is called with are collected in
  the host record below.
\<close>

record Executor_Impl =
  apk_info :: ApkInfo
  ex_state :: ExecutionState
  ex_config :: ExecutorConfig
  last_error :: string
  event_callback :: bool
  error_callback :: bool
  is_running :: bool
  dex_data :: ptr
  dex_size :: nat
  loaded_libs :: "ptr list"

text \<open>
  What the loader acts on outside itself: the anonymous mappings of the process (start
  address to contents), the reference count of every dynamic-library handle, the number of
  archives currently open through libzip, and the event messages delivered so far.
\<close>

record host =
  regions :: "ptr \<rightharpoonup> 8 word list"
  dl_refs :: "ptr \<Rightarrow> nat"
  open_archives :: nat
  events :: "string list"

text \<open>
  What the file system, libzip and the kernel answer. \<open>fs_exists\<close> is
  \<^verbatim>\<open>std::filesystem::exists\<close>, which throws on an operating-system error (\<open>Inl\<close> holds
  the \<^verbatim>\<open>what()\<close> text). \<open>zip_open_result\<close> is \<open>None\<close> where \<^verbatim>\<open>zip_open\<close> returns
  null. Of an archive only the entry \<^verbatim>\<open>classes.dex\<close> matters: \<open>None\<close> where
  \<^verbatim>\<open>zip_stat\<close> fails, else the size \<^verbatim>\<open>zip_stat\<close> reports, whether
  \<^verbatim>\<open>zip_fopen\<close> succeeds, and the bytes \<^verbatim>\<open>zip_fread\<close> delivers. \<open>mmap_result\<close> is the
  address the kernel picks for a mapping of the given length, \<open>MAP_FAILED\<close> when it
  refuses.
\<close>

record zip_entry =
  st_size :: nat
  fopen_ok :: bool
  fread_bytes :: "8 word list"

record archive =
  classes_dex :: "zip_entry option"

record env =
  fs_exists :: "string \<Rightarrow> string + bool"
  zip_open_result :: "string \<Rightarrow> archive option"
  mmap_result :: "nat \<Rightarrow> ptr"

text \<open>
  \<^verbatim>\<open>mmap(nullptr, len, PROT_READ | PROT_WRITE, MAP_PRIVATE | MAP_ANONYMOUS, -1, 0)\<close>: a
  length of zero is refused; a new anonymous mapping is filled with zeros.
  \<^verbatim>\<open>munmap(addr, len)\<close>: an address that is not a multiple of the page size (4096
  bytes), as \<open>MAP_FAILED\<close> is, is refused; otherwise the mapping that starts at the address is gone
  (the loader passes the length it recorded with the address).
  \<^verbatim>\<open>dlclose(handle)\<close> gives up one reference.
\<close>

definition mmap_anon :: "env \<Rightarrow> nat \<Rightarrow> host \<Rightarrow> ptr \<times> host" where
  "mmap_anon e len w =
     (if len = 0 \<or> mmap_result e len = MAP_FAILED then (MAP_FAILED, w)
      else (mmap_result e len,
            w\<lparr>regions := (regions w)(mmap_result e len \<mapsto> replicate len 0)\<rparr>))"

definition munmap :: "ptr \<Rightarrow> nat \<Rightarrow> host \<Rightarrow> host" where
  "munmap addr len w =
     (if addr AND 4095 \<noteq> 0 then w else w\<lparr>regions := (regions w)(addr := None)\<rparr>)"

definition dlclose :: "ptr \<Rightarrow> host \<Rightarrow> host" where
  "dlclose lib w = w\<lparr>dl_refs := (dl_refs w)(lib := dl_refs w lib - 1)\<rparr>"

text \<open>
  \<^verbatim>\<open>zip_fread(file, buf, n)\<close> stores at most \<open>n\<close> bytes at the start of the mapping
  \<open>buf\<close> points to.
\<close>

definition zip_fread :: "zip_entry \<Rightarrow> ptr \<Rightarrow> nat \<Rightarrow> host \<Rightarrow> host" where
  "zip_fread entry buf n w =
     (case regions w buf of
        None \<Rightarrow> w
      | Some old \<Rightarrow>
          (let bytes = take n (fread_bytes entry)
           in w\<lparr>regions := (regions w)(buf \<mapsto> bytes @ drop (length bytes) old)\<rparr>))"

definition updateState :: "ExecutionState \<Rightarrow> Executor_Impl \<Rightarrow> host \<Rightarrow> Executor_Impl \<times> host" where
  "updateState new_state s w =
     (s\<lparr>ex_state := new_state\<rparr>,
      if event_callback s
      then w\<lparr>events := events w @
                 [''State changed to: '' @ to_string (ExecutionState_int new_state)]\<rparr>
      else w)"

definition extractDex ::
  "env \<Rightarrow> string \<Rightarrow> Executor_Impl \<Rightarrow> host \<Rightarrow> bool \<times> Executor_Impl \<times> host" where
  "extractDex e apk_path' s w =
     (case zip_open_result e apk_path' of
        None \<Rightarrow> (False, s\<lparr>last_error := ''Failed to open APK file''\<rparr>, w)
      | Some z \<Rightarrow>
          (let w1 = w\<lparr>open_archives := open_archives w + 1\<rparr>
           in case classes_dex z of
                Some st \<Rightarrow>
                  (let s1 = s\<lparr>dex_size := st_size st\<rparr>;
                       (p, w2) = mmap_anon e (dex_size s1) w1;
                       s2 = s1\<lparr>dex_data := p\<rparr>
                   in if dex_data s2 = MAP_FAILED
                      then (False,
                            s2\<lparr>last_error := ''Failed to allocate memory for DEX''\<rparr>,
                            w2\<lparr>open_archives := open_archives w2 - 1\<rparr>)
                      else
                        (let w3 = (if fopen_ok st
                                   then zip_fread st (dex_data s2) (st_size st) w2
                                   else w2)
                         in (True, s2, w3\<lparr>open_archives := open_archives w3 - 1\<rparr>)))
              | None \<Rightarrow> (True, s, w1\<lparr>open_archives := open_archives w1 - 1\<rparr>)))"

text \<open>The constructor \<^verbatim>\<open>Impl()\<close>; the members it does not name are default-initialised.\<close>

definition Executor_Impl_new :: Executor_Impl where
  "Executor_Impl_new =
     \<lparr>apk_info = \<lparr>apk_package_name = [], apk_version_name = [], apk_version_code = 0,
                  min_sdk = [], target_sdk = [], permissions = [], main_activity = [],
                  apk_path = []\<rparr>,
      ex_state = ES_NotStarted,
      ex_config = \<lparr>enable_graphics = True, enable_sound = True, enable_network = True,
                   sandbox_mode = True, data_dir = [], allowed_permissions = []\<rparr>,
      last_error = [],
      event_callback = False,
      error_callback = False,
      is_running = False,
      dex_data = nullptr,
      dex_size = 0,
      loaded_libs = []\<rparr>"

text \<open>The destructor \<^verbatim>\<open>~Impl()\<close>.\<close>

definition Executor_Impl_destroy :: "Executor_Impl \<Rightarrow> host \<Rightarrow> host" where
  "Executor_Impl_destroy s w =
     (let w1 = (if dex_data s \<noteq> nullptr then munmap (dex_data s) (dex_size s) w else w)
      in foldl (\<lambda>w' lib. dlclose lib w') w1 (loaded_libs s))"

text \<open>
  \<^verbatim>\<open>loadApk\<close>. Inside the \<^verbatim>\<open>try\<close> block only \<^verbatim>\<open>std::filesystem::exists\<close> is
  modelled as throwing; the \<^verbatim>\<open>catch\<close> clause is its \<open>Inl\<close> branch.
\<close>

definition loadApk :: "env \<Rightarrow> string \<Rightarrow> Executor_Impl \<Rightarrow> host \<Rightarrow> Result \<times> Executor_Impl \<times> host" where
  "loadApk e path s w =
     (let (s0, w0) = updateState ES_Loading s w
      in case fs_exists e path of
           Inl what \<Rightarrow>
             (let (s1, w1) = updateState ES_Error (s0\<lparr>last_error := what\<rparr>) w0
              in (RuntimeError, s1, w1))
         | Inr False \<Rightarrow>
             (let (s1, w1) = updateState ES_Error (s0\<lparr>last_error := ''APK file not found''\<rparr>) w0
              in (InvalidApk, s1, w1))
         | Inr True \<Rightarrow>
             (let s1 = s0\<lparr>apk_info := (apk_info s0)
                          \<lparr>apk_path := path,
                           apk_package_name := ''com.example.test'',
                           apk_version_name := ''1.0.0'',
                           apk_version_code := 1,
                           min_sdk := ''21'',
                           target_sdk := ''33'',
                           main_activity := ''com.example.test.MainActivity''\<rparr>\<rparr>
              in case extractDex e path s1 w0 of
                   (False, s2, w2) \<Rightarrow>
                     (let (s3, w3) = updateState ES_Error s2 w2 in (RuntimeError, s3, w3))
                 | (True, s2, w2) \<Rightarrow>
                     (let (s3, w3) = updateState ES_Stopped s2 w2 in (Success, s3, w3))))"

section \<open>Runtime boot and class registry: \<^verbatim>\<open>src/core/runtime.cpp\<close>\<close>

datatype RuntimeResult =
    RT_Success
  | RT_RuntimeError
  | RT_ClassNotFound
  | RT_MethodNotFound
  | RT_OutOfMemory
  | RT_SecurityException

datatype RuntimeState = RS_NotInitialized | RS_Ready | RS_Running | RS_Stopped | RS_Error

record RuntimeConfig =
  system_dir :: string
  rt_data_dir :: string
  heap_size :: nat
  debug_mode :: bool
  classpath :: "string list"

text \<open>
  The members of \<^verbatim>\<open>Runtime::Impl\<close>. \<open>rt_event_callback\<close> says whether an event
  callback is installed; the functions below thread the list of messages it has been
  called with, each without the \<^verbatim>\<open>"[time] "\<close> prefix that \<^verbatim>\<open>log\<close> puts in front.
\<close>

record Runtime_Impl =
  rt_config :: RuntimeConfig
  rt_state :: RuntimeState
  user :: string
  loaded_classes :: "string list"
  native_methods :: "string \<rightharpoonup> ptr"
  rt_event_callback :: bool

definition log :: "string \<Rightarrow> Runtime_Impl \<Rightarrow> string list \<Rightarrow> string list" where
  "log message s tr = (if rt_event_callback s then tr @ [message] else tr)"

text \<open>
  \<^verbatim>\<open>loadClass\<close>. Its \<^verbatim>\<open>try\<close> block holds one statement, the \<^verbatim>\<open>push_back\<close>, which
  throws only when the vector cannot grow; \<open>alloc_fault\<close> gives, for a class name, the
  \<^verbatim>\<open>what()\<close> text of that exception, or \<open>None\<close> when the \<^verbatim>\<open>push_back\<close> succeeds.
\<close>

definition loadClass ::
  "(string \<Rightarrow> string option) \<Rightarrow> string \<Rightarrow> Runtime_Impl \<Rightarrow> string list
     \<Rightarrow> bool \<times> Runtime_Impl \<times> string list" where
  "loadClass alloc_fault class_name s tr =
     (let tr1 = log (''Loading class: '' @ class_name) s tr
      in case alloc_fault class_name of
           None \<Rightarrow> (True, s\<lparr>loaded_classes := loaded_classes s @ [class_name]\<rparr>, tr1)
         | Some what \<Rightarrow> (False, s, log (''Error loading class: '' @ what) s tr1))"

definition registerNativeMethod ::
  "string \<Rightarrow> ptr \<Rightarrow> Runtime_Impl \<Rightarrow> string list \<Rightarrow> bool \<times> Runtime_Impl \<times> string list" where
  "registerNativeMethod name func s tr =
     (True, s\<lparr>native_methods := (native_methods s)(name \<mapsto> func)\<rparr>,
      log (''Registering native method: '' @ name) s tr)"

definition core_classes :: "string list" where
  "core_classes =
     [''android.app.Activity'', ''android.content.Context'', ''android.os.Bundle'',
      ''android.view.View'']"

definition native_funcs :: "(string \<times> ptr) list" where
  "native_funcs =
     [(''android.os.SystemClock.nativeCurrentTimeMillis'', nullptr),
      (''android.os.SystemClock.nativeElapsedRealtime'', nullptr),
      (''android.graphics.Canvas.nativeCreate'', nullptr),
      (''android.view.Surface.nativeCreateFromSurfaceTexture'', nullptr)]"

text \<open>The two \<^verbatim>\<open>for\<close> loops, each leaving at the first failure.\<close>

fun loadCoreClasses_loop ::
  "(string \<Rightarrow> string option) \<Rightarrow> string list \<Rightarrow> Runtime_Impl \<Rightarrow> string list
     \<Rightarrow> bool \<times> Runtime_Impl \<times> string list" where
  "loadCoreClasses_loop alloc_fault [] s tr = (True, s, tr)"
| "loadCoreClasses_loop alloc_fault (class_name # rest) s tr =
     (case loadClass alloc_fault class_name s tr of
        (False, s1, tr1) \<Rightarrow> (False, s1, log (''Failed to load core class: '' @ class_name) s1 tr1)
      | (True, s1, tr1) \<Rightarrow> loadCoreClasses_loop alloc_fault rest s1 tr1)"

definition loadCoreClasses ::
  "(string \<Rightarrow> string option) \<Rightarrow> Runtime_Impl \<Rightarrow> string list
     \<Rightarrow> bool \<times> Runtime_Impl \<times> string list" where
  "loadCoreClasses alloc_fault s tr = loadCoreClasses_loop alloc_fault core_classes s tr"

fun registerNativeMethods_loop ::
  "(string \<times> ptr) list \<Rightarrow> Runtime_Impl \<Rightarrow> string list \<Rightarrow> bool \<times> Runtime_Impl \<times> string list" where
  "registerNativeMethods_loop [] s tr = (True, s, tr)"
| "registerNativeMethods_loop ((name, func) # rest) s tr =
     (case registerNativeMethod name func s tr of
        (False, s1, tr1) \<Rightarrow>
          (False, s1, log (''Failed to register native method: '' @ name) s1 tr1)
      | (True, s1, tr1) \<Rightarrow> registerNativeMethods_loop rest s1 tr1)"

definition registerNativeMethods ::
  "Runtime_Impl \<Rightarrow> string list \<Rightarrow> bool \<times> Runtime_Impl \<times> string list" where
  "registerNativeMethods s tr = registerNativeMethods_loop native_funcs s tr"

definition initializeVM ::
  "(string \<Rightarrow> string option) \<Rightarrow> Runtime_Impl \<Rightarrow> string list
     \<Rightarrow> bool \<times> Runtime_Impl \<times> string list" where
  "initializeVM alloc_fault s tr =
     (let tr0 = log ''Initializing Android Runtime'' s tr
      in case loadCoreClasses alloc_fault s tr0 of
           (False, s1, tr1) \<Rightarrow> (False, s1, tr1)
         | (True, s1, tr1) \<Rightarrow>
             (case registerNativeMethods s1 tr1 of
                (False, s2, tr2) \<Rightarrow> (False, s2, tr2)
              | (True, s2, tr2) \<Rightarrow> (True, s2, tr2)))"

definition Runtime_Impl_new :: Runtime_Impl where
  "Runtime_Impl_new =
     \<lparr>rt_config = \<lparr>system_dir = [], rt_data_dir = [], heap_size = 256 * 1024 * 1024,
                   debug_mode = False, classpath = []\<rparr>,
      rt_state = RS_NotInitialized,
      user = ''AnmiTaliDev'',
      loaded_classes = [],
      native_methods = Map.empty,
      rt_event_callback = False\<rparr>"

definition rt_initialize ::
  "(string \<Rightarrow> string option) \<Rightarrow> RuntimeConfig \<Rightarrow> Runtime_Impl \<Rightarrow> string list
     \<Rightarrow> bool \<times> Runtime_Impl \<times> string list" where
  "rt_initialize alloc_fault cfg s tr =
     (let s0 = s\<lparr>rt_config := cfg\<rparr>
      in case initializeVM alloc_fault s0 tr of
           (False, s1, tr1) \<Rightarrow> (False, s1\<lparr>rt_state := RS_Error\<rparr>, tr1)
         | (True, s1, tr1) \<Rightarrow>
             (let s2 = s1\<lparr>rt_state := RS_Ready\<rparr>
              in (True, s2, log ''Runtime initialized successfully'' s2 tr1)))"

text \<open>
  \<^verbatim>\<open>Runtime::Impl::startActivity\<close>. Between the class load and the assignment to
  \<^verbatim>\<open>state\<close> the source has four comment lines and no statement.
\<close>

definition startActivity ::
  "(string \<Rightarrow> string option) \<Rightarrow> string \<Rightarrow> ptr \<Rightarrow> Runtime_Impl \<Rightarrow> string list
     \<Rightarrow> RuntimeResult \<times> Runtime_Impl \<times> string list" where
  "startActivity alloc_fault activity_name' savedInstanceState s tr =
     (if rt_state s \<noteq> RS_Ready then (RT_RuntimeError, s, tr)
      else
        (let tr0 = log (''Starting activity: '' @ activity_name') s tr
         in case loadClass alloc_fault activity_name' s tr0 of
              (False, s1, tr1) \<Rightarrow> (RT_ClassNotFound, s1, tr1)
            | (True, s1, tr1) \<Rightarrow> (RT_Success, s1\<lparr>rt_state := RS_Running\<rparr>, tr1)))"

definition shutdown :: "Runtime_Impl \<Rightarrow> string list \<Rightarrow> Runtime_Impl \<times> string list" where
  "shutdown s tr =
     (if rt_state s = RS_Running \<or> rt_state s = RS_Ready
      then (s\<lparr>loaded_classes := [], native_methods := Map.empty, rt_state := RS_Stopped\<rparr>,
            log ''Shutting down runtime'' s tr)
      else (s, tr))"

section \<open>Sample inputs\<close>

text \<open>
  Concrete hosts, environments and requests for the evaluations further down. The host of
  the sample gateway is the list of responses its callback has received.
\<close>

definition snapshot_finishing :: SavedState where
  "snapshot_finishing = \<lparr>sv_data = [], sv_is_finishing = True, sv_has_focus = True\<rparr>"

definition recording_callback :: "APIResponse \<Rightarrow> APIResponse list proc" where
  "recording_callback r w = (None, w @ [r])"

definition throw_other :: "APIResponse list APIRequest \<Rightarrow> APIResponse list proc" where
  "throw_other req w = (Some OtherThrow, w)"

definition throw_runtime_error :: "APIResponse list APIRequest \<Rightarrow> APIResponse list proc" where
  "throw_runtime_error req w = (Some (StdException ''boom''), w)"

definition sample_config :: APIConfig where
  "sample_config =
     \<lparr>cfg_package_name = ''com.example.test'', cfg_version_name = ''1.0.0'',
      cfg_version_code = 1, cfg_min_sdk_level = ANDROID_10, cfg_target_sdk_level = ANDROID_13\<rparr>"

definition sample_gateway :: "APIResponse list API_Impl" where
  "sample_gateway =
     (case initialize sample_config
             (registerHandler ''fail'' (ClientHandler throw_runtime_error)
               (registerHandler ''explode'' (ClientHandler throw_other) (API_Impl_new 0))) of
        Inr s \<Rightarrow> s
      | Inl e \<Rightarrow> API_Impl_new 0)"

definition sample_request :: "string \<Rightarrow> APIResponse list APIRequest" where
  "sample_request m =
     \<lparr>req_method = m, req_params = Map.empty, req_callback = recording_callback\<rparr>"

definition host_empty :: host where
  "host_empty = \<lparr>regions = Map.empty, dl_refs = (\<lambda>lib. 0), open_archives = 0, events = []\<rparr>"

definition sample_entry :: zip_entry where
  "sample_entry = \<lparr>st_size = 4, fopen_ok = True, fread_bytes = [100, 101, 120, 10]\<rparr>"

definition env_with_dex :: env where
  "env_with_dex =
     \<lparr>fs_exists = (\<lambda>p. Inr True),
      zip_open_result = (\<lambda>p. Some \<lparr>classes_dex = Some sample_entry\<rparr>),
      mmap_result = (\<lambda>len. 0x7F0000000000)\<rparr>"

definition env_no_dex :: env where
  "env_no_dex = env_with_dex\<lparr>zip_open_result := (\<lambda>p. Some \<lparr>classes_dex = None\<rparr>)\<rparr>"

definition env_fopen_fails :: env where
  "env_fopen_fails =
     env_with_dex\<lparr>zip_open_result :=
                    (\<lambda>p. Some \<lparr>classes_dex = Some (sample_entry\<lparr>fopen_ok := False\<rparr>)\<rparr>)\<rparr>"

definition env_mmap_refused :: env where
  "env_mmap_refused = env_with_dex\<lparr>mmap_result := (\<lambda>len. MAP_FAILED)\<rparr>"

text \<open>An archive whose \<^verbatim>\<open>classes.dex\<close> entry has length zero.\<close>

definition env_empty_dex :: env where
  "env_empty_dex =
     env_with_dex\<lparr>zip_open_result :=
                    (\<lambda>p. Some \<lparr>classes_dex =
                                Some \<lparr>st_size = 0, fopen_ok = True, fread_bytes = []\<rparr>\<rparr>)\<rparr>"

definition env_missing_file :: env where
  "env_missing_file = env_with_dex\<lparr>fs_exists := (\<lambda>p. Inr False)\<rparr>"

definition loader_holding :: Executor_Impl where
  "loader_holding = fst (snd (loadApk env_with_dex ''app.apk'' Executor_Impl_new host_empty))"

definition host_holding :: host where
  "host_holding = snd (snd (loadApk env_with_dex ''app.apk'' Executor_Impl_new host_empty))"

definition no_alloc_fault :: "string \<Rightarrow> string option" where
  "no_alloc_fault class_name = None"

definition sample_runtime_config :: RuntimeConfig where
  "sample_runtime_config =
     \<lparr>system_dir = ''/system'', rt_data_dir = ''/data'', heap_size = 256 * 1024 * 1024,
      debug_mode = False, classpath = []\<rparr>"

definition runtime_ready :: Runtime_Impl where
  "runtime_ready =
     fst (snd (rt_initialize no_alloc_fault sample_runtime_config Runtime_Impl_new []))"

section \<open>The component lifecycle follows its table\<close>

lemma lifecycle_step_value:
  "state_value (lifecycle_step c s) =
     (case table_4_2 c (state_value s) of Some v \<Rightarrow> v | None \<Rightarrow> state_value s)"
  by (cases c)
     (simp_all add: onCreate_def onStart_def onResume_def onPause_def onStop_def onDestroy_def
        initializeSystemServices_def cleanupSystemServices_def logLifecycleEvent_def)

lemma lifecycle_step_ignored:
  "table_4_2 c (state_value s) = None \<Longrightarrow> lifecycle_step c s = s"
  by (cases c)
     (simp_all add: onCreate_def onStart_def onResume_def onPause_def onStop_def onDestroy_def
        split: if_splits)

lemma run_lifecycle_append:
  "run_lifecycle (cs @ ds) s = run_lifecycle ds (run_lifecycle cs s)"
  by (induction cs arbitrary: s) simp_all

text \<open>
  C2. After any finite sequence \<open>cs\<close> of lifecycle calls on a freshly constructed
  instance (state \<open>Created\<close>), one more call \<open>c\<close> moves the lifecycle state exactly
  as the table of section 4.2 says: to the row's resulting state when the current state
  is one the call is valid from, and nowhere otherwise; and a call whose guard fails
  returns the instance as it was, all members unchanged, without an error.
\<close>

theorem lifecycle_follows_table:
  "state_value (lifecycle_step c (run_lifecycle cs Activity_Impl_new)) =
     (case table_4_2 c (state_value (run_lifecycle cs Activity_Impl_new)) of
        Some v \<Rightarrow> v
      | None \<Rightarrow> state_value (run_lifecycle cs Activity_Impl_new))
   \<and> (table_4_2 c (state_value (run_lifecycle cs Activity_Impl_new)) = None \<longrightarrow>
        lifecycle_step c (run_lifecycle cs Activity_Impl_new)
          = run_lifecycle cs Activity_Impl_new)"
  using lifecycle_step_value lifecycle_step_ignored by blast

theorem lifecycle_follows_table_witness:
  "table_4_2 OnPause (state_value (run_lifecycle [OnCreate, OnStart] Activity_Impl_new)) = None
   \<and> lifecycle_step OnPause (run_lifecycle [OnCreate, OnStart] Activity_Impl_new)
       = run_lifecycle [OnCreate, OnStart] Activity_Impl_new
   \<and> state_value (lifecycle_step OnResume (run_lifecycle [OnCreate, OnStart] Activity_Impl_new))
       = Resumed"
  using lifecycle_follows_table [of OnPause "[OnCreate, OnStart]"]
        lifecycle_follows_table [of OnResume "[OnCreate, OnStart]"]
  by (simp add: onCreate_def onStart_def Activity_Impl_new_def initializeSystemServices_def
        logLifecycleEvent_def)

section \<open>Finishing a component\<close>

lemma finish_not_finishing:
  "\<not> is_finishing s \<Longrightarrow> state_value (finish s) = Destroyed \<and> is_finishing (finish s)"
  by (cases "state_value s")
     (simp_all add: finish_def onPause_def onStop_def onDestroy_def cleanupSystemServices_def
        logLifecycleEvent_def)

lemma finishing_inv_lifecycle:
  assumes "finishing_inv s"
  shows "finishing_inv (lifecycle_step c s)"
  using assms
  by (cases c)
     (auto simp add: finishing_inv_def onCreate_def onStart_def onResume_def onPause_def
        onStop_def onDestroy_def initializeSystemServices_def cleanupSystemServices_def
        logLifecycleEvent_def)

lemma finishing_inv_step:
  assumes "finishing_inv s"
  shows "finishing_inv (activity_step c s)"
proof (cases c)
  case (Lifecycle l)
  with assms show ?thesis by (simp add: finishing_inv_lifecycle)
next
  case Finish
  show ?thesis
  proof (cases "is_finishing s")
    case True
    with assms Finish show ?thesis by (simp add: finish_def)
  next
    case False
    with Finish finish_not_finishing [of s] show ?thesis by (simp add: finishing_inv_def)
  qed
next
  case SaveInstanceState
  with assms show ?thesis
    by (simp add: finishing_inv_def onSaveInstanceState_def logLifecycleEvent_def Let_def)
next
  case (RestoreInstanceState sv)
  with assms show ?thesis
    by (simp add: finishing_inv_def onRestoreInstanceState_def logLifecycleEvent_def)
next
  case (WindowFocusChanged b)
  with assms show ?thesis
    by (simp add: finishing_inv_def onWindowFocusChanged_def logLifecycleEvent_def)
next
  case (StartActivity i)
  with assms show ?thesis
    by (simp add: finishing_inv_def startActivity_from_def logLifecycleEvent_def)
qed

lemma finishing_flag_sticky:
  "is_finishing s \<Longrightarrow> is_finishing (activity_step c s)"
proof (cases c)
  case (Lifecycle l)
  assume "is_finishing s"
  with Lifecycle show ?thesis
    by (cases l)
       (simp_all add: onCreate_def onStart_def onResume_def onPause_def onStop_def
          onDestroy_def initializeSystemServices_def cleanupSystemServices_def
          logLifecycleEvent_def)
qed (simp_all add: onSaveInstanceState_def onRestoreInstanceState_def
       onWindowFocusChanged_def startActivity_from_def finish_def logLifecycleEvent_def Let_def)

lemma finishing_inv_run:
  "finishing_inv s \<Longrightarrow> finishing_inv (run_activity cs s)"
  by (induction cs arbitrary: s) (simp_all add: finishing_inv_step)

lemma finishing_inv_new: "finishing_inv Activity_Impl_new"
  by (simp add: finishing_inv_def Activity_Impl_new_def logLifecycleEvent_def)

lemma every_state_reachable:
  "\<exists>ds. state_value (run_activity ds Activity_Impl_new) = v
        \<and> \<not> is_finishing (run_activity ds Activity_Impl_new)"
proof (cases v)
  case Created
  have "state_value (run_activity [] Activity_Impl_new) = Created
        \<and> \<not> is_finishing (run_activity [] Activity_Impl_new)"
    by (simp add: Activity_Impl_new_def logLifecycleEvent_def)
  with Created show ?thesis by blast
next
  case Started
  have "state_value (run_activity [Lifecycle OnStart] Activity_Impl_new) = Started
        \<and> \<not> is_finishing (run_activity [Lifecycle OnStart] Activity_Impl_new)"
    by (simp add: Activity_Impl_new_def logLifecycleEvent_def onStart_def)
  with Started show ?thesis by blast
next
  case Resumed
  have "state_value (run_activity [Lifecycle OnStart, Lifecycle OnResume] Activity_Impl_new)
          = Resumed
        \<and> \<not> is_finishing
              (run_activity [Lifecycle OnStart, Lifecycle OnResume] Activity_Impl_new)"
    by (simp add: Activity_Impl_new_def logLifecycleEvent_def onStart_def onResume_def)
  with Resumed show ?thesis by blast
next
  case Paused
  have "state_value (run_activity [Lifecycle OnStart, Lifecycle OnResume, Lifecycle OnPause]
                       Activity_Impl_new) = Paused
        \<and> \<not> is_finishing
              (run_activity [Lifecycle OnStart, Lifecycle OnResume, Lifecycle OnPause]
                 Activity_Impl_new)"
    by (simp add: Activity_Impl_new_def logLifecycleEvent_def onStart_def onResume_def
          onPause_def)
  with Paused show ?thesis by blast
next
  case Stopped
  have "state_value (run_activity [Lifecycle OnStart, Lifecycle OnResume, Lifecycle OnPause,
                                   Lifecycle OnStop] Activity_Impl_new) = Stopped
        \<and> \<not> is_finishing
              (run_activity [Lifecycle OnStart, Lifecycle OnResume, Lifecycle OnPause,
                             Lifecycle OnStop] Activity_Impl_new)"
    by (simp add: Activity_Impl_new_def logLifecycleEvent_def onStart_def onResume_def
          onPause_def onStop_def)
  with Stopped show ?thesis by blast
next
  case Destroyed
  have "state_value (run_activity [Lifecycle OnDestroy] Activity_Impl_new) = Destroyed
        \<and> \<not> is_finishing (run_activity [Lifecycle OnDestroy] Activity_Impl_new)"
    by (simp add: Activity_Impl_new_def logLifecycleEvent_def onDestroy_def
          cleanupSystemServices_def)
  with Destroyed show ?thesis by blast
qed

text \<open>
  C7. On every instance the public interface can produce from a fresh one (by any
  sequence \<open>cs\<close> of lifecycle calls, save, restore, focus changes, activity starts and
  earlier calls of finish), \<open>finish\<close> leaves the lifecycle state \<open>Destroyed\<close> and the
  finishing flag set; and each of the six lifecycle states \<open>v\<close> is the state of such an
  instance whose flag is not yet set, on which \<open>finish\<close> is the flag, then pause, stop and
  destroy, each behind its own guard.
\<close>

theorem finish_ends_Destroyed:
  "state_value (finish (run_activity cs Activity_Impl_new)) = Destroyed
   \<and> is_finishing (finish (run_activity cs Activity_Impl_new))
   \<and> (\<exists>ds. state_value (run_activity ds Activity_Impl_new) = v
          \<and> \<not> is_finishing (run_activity ds Activity_Impl_new)
          \<and> finish (run_activity ds Activity_Impl_new)
              = onDestroy (onStop (onPause (logLifecycleEvent ''Activity finishing''
                  ((run_activity ds Activity_Impl_new)\<lparr>is_finishing := True\<rparr>)))))"
proof -
  let ?s = "run_activity cs Activity_Impl_new"
  have inv: "finishing_inv ?s"
    using finishing_inv_run [OF finishing_inv_new] .
  have ends: "state_value (finish ?s) = Destroyed \<and> is_finishing (finish ?s)"
  proof (cases "is_finishing ?s")
    case True
    with inv show ?thesis by (simp add: finishing_inv_def finish_def)
  next
    case False
    then show ?thesis by (rule finish_not_finishing)
  qed
  obtain ds where ds: "state_value (run_activity ds Activity_Impl_new) = v"
      "\<not> is_finishing (run_activity ds Activity_Impl_new)"
    using every_state_reachable [of v] by blast
  from ds(2) have "finish (run_activity ds Activity_Impl_new)
              = onDestroy (onStop (onPause (logLifecycleEvent ''Activity finishing''
                  ((run_activity ds Activity_Impl_new)\<lparr>is_finishing := True\<rparr>))))"
    by (simp add: finish_def)
  with ends ds show ?thesis by blast
qed

section \<open>Saving and restoring instance state\<close>

text \<open>
  C9. Saving into a snapshot and restoring that snapshot at once on the same instance
  gives back the focus flag and the finishing flag the instance had (the snapshot holds
  both), and neither the save nor a restore of any snapshot changes the lifecycle state.
\<close>

theorem save_restore_roundtrip:
  "has_window_focus
     (onRestoreInstanceState (fst (onSaveInstanceState s)) (snd (onSaveInstanceState s)))
     = has_window_focus s
   \<and> is_finishing
       (onRestoreInstanceState (fst (onSaveInstanceState s)) (snd (onSaveInstanceState s)))
     = is_finishing s
   \<and> sv_has_focus (fst (onSaveInstanceState s)) = has_window_focus s
   \<and> sv_is_finishing (fst (onSaveInstanceState s)) = is_finishing s
   \<and> state_value (snd (onSaveInstanceState s)) = state_value s
   \<and> state_value (onRestoreInstanceState sv s) = state_value s"
  by (simp add: onSaveInstanceState_def onRestoreInstanceState_def logLifecycleEvent_def Let_def)

text \<open>
  C10, as amended. Restoring a snapshot changes three members: the stored snapshot copy,
  the window-focus flag (set from the snapshot's focus field) and the lifecycle log, to
  which it appends one entry. It changes neither the finishing flag nor the lifecycle
  state, whatever the snapshot's finishing field says.
\<close>

theorem restore_frame:
  "onRestoreInstanceState savedState s =
     s\<lparr>lifecycle_log :=
         lifecycle_log s @ [''Activity '' @ activity_name s @ '': Restoring instance state''],
       saved_state := savedState,
       has_window_focus := sv_has_focus savedState\<rparr>
   \<and> is_finishing (onRestoreInstanceState savedState s) = is_finishing s
   \<and> state_value (onRestoreInstanceState savedState s) = state_value s"
  by (simp add: onRestoreInstanceState_def logLifecycleEvent_def)

text \<open>
  C10 as first stated, that the snapshot copy and the focus flag are all that changes,
  fails on a fresh instance: the log has grown.
\<close>

theorem restore_changes_log_counterexample:
  "onRestoreInstanceState snapshot_finishing Activity_Impl_new
     \<noteq> Activity_Impl_new\<lparr>saved_state := snapshot_finishing,
                           has_window_focus := sv_has_focus snapshot_finishing\<rparr>
   \<and> length (lifecycle_log (onRestoreInstanceState snapshot_finishing Activity_Impl_new)) = 2
   \<and> length (lifecycle_log Activity_Impl_new) = 1"
proof -
  have two: "length (lifecycle_log (onRestoreInstanceState snapshot_finishing Activity_Impl_new)) = 2"
    by (simp add: onRestoreInstanceState_def logLifecycleEvent_def Activity_Impl_new_def)
  have one: "length (lifecycle_log Activity_Impl_new) = 1"
    by (simp add: logLifecycleEvent_def Activity_Impl_new_def)
  have "lifecycle_log (onRestoreInstanceState snapshot_finishing Activity_Impl_new)
          \<noteq> lifecycle_log (Activity_Impl_new\<lparr>saved_state := snapshot_finishing,
                           has_window_focus := sv_has_focus snapshot_finishing\<rparr>)"
    using two one by auto
  then have "onRestoreInstanceState snapshot_finishing Activity_Impl_new
     \<noteq> Activity_Impl_new\<lparr>saved_state := snapshot_finishing,
                           has_window_focus := sv_has_focus snapshot_finishing\<rparr>"
    by auto
  with two one show ?thesis by simp
qed

section \<open>The rate limiter\<close>




text \<open>
  The counter stays between 0 and the capacity, so the \<^verbatim>\<open>int\<close> of the source never
  overflows and the unbounded integer of the model is exact.
\<close>

lemma checkRateLimit_count_bounds:
  assumes "0 \<le> api_calls_count s" and "api_calls_count s \<le> 1000"
  shows "0 \<le> api_calls_count (snd (checkRateLimit t s))
       \<and> api_calls_count (snd (checkRateLimit t s)) \<le> 1000"
  using assms by (simp add: checkRateLimit_def MAX_API_CALLS_PER_SECOND_def Let_def)

text \<open>The window is one second: the cast is below 1 exactly under \<open>10 ^ 9\<close> ticks.\<close>

lemma window_is_one_second:
  "duration_cast_seconds d < 1 \<longleftrightarrow> d < 1000000000"
  by (simp add: duration_cast_seconds_def) linarith




section \<open>Requests to the gateway\<close>

lemma API_Impl_new_uninitialized:
  "\<not> initialized (API_Impl_new t0)"
  by (simp add: API_Impl_new_def registerDefaultHandlers_def registerHandler_def)

lemma registerHandler_initialized:
  "initialized (registerHandler name h s) = initialized s"
  by (simp add: registerHandler_def)

text \<open>Only \<open>initialize\<close> sets the flag: no request does.\<close>

lemma handleRequest_initialized:
  "initialized (fst (snd (handleRequest request now s w))) = initialized s"
proof -
  have limiter: "initialized (snd (checkRateLimit now s)) = initialized s"
    by (simp add: checkRateLimit_def Let_def)
  have handler: "initialized (fst (snd (run_handler h request s' w'))) = initialized s'"
    for h and s' :: "'a API_Impl" and w'
    by (cases h)
       (simp_all add: handleGetApiLevel_def handleCheckPermission_def
          handleRegisterNativeMethod_def split_beta Let_def split: option.splits sum.splits)
  show ?thesis
  proof (cases "initialized s")
    case False
    then show ?thesis by (simp add: handleRequest_def split_beta)
  next
    case True
    obtain b s1 where rl: "checkRateLimit now s = (b, s1)"
      by (cases "checkRateLimit now s")
    with limiter have s1: "initialized s1 = initialized s" by simp
    show ?thesis
    proof (cases b)
      case False
      with True rl s1 show ?thesis by (simp add: handleRequest_def split_beta)
    next
      case admitted: True
      show ?thesis
      proof (cases "handlers s1 (req_method request)")
        case None
        with True rl s1 admitted show ?thesis by (simp add: handleRequest_def split_beta)
      next
        case (Some h)
        obtain f s2 w2 where run: "run_handler h request s1 w = (f, s2, w2)"
          by (cases "run_handler h request s1 w")
        with handler [of h s1 w] have s2: "initialized s2 = initialized s1" by simp
        from True rl admitted Some run s1 s2 show ?thesis
          by (cases f; cases "the f")
             (simp_all add: handleRequest_def split_beta)
      qed
    qed
  qed
qed

text \<open>
  C8. On a gateway whose initialised flag is not set (as after construction, and until
  \<open>initialize\<close> succeeds), \<open>handleRequest\<close> does one thing for any request, whatever its
  method name and parameters: it calls the request's callback with the failure response
  whose error is "API not initialized". The gateway is returned as it was, rate counter
  included, the host is changed by that callback call alone, and no registry entry is
  looked up or run.
\<close>

theorem uninitialized_gateway_refuses:
  "\<not> initialized s \<Longrightarrow>
   handleRequest request now s w =
     (fst (req_callback request
             \<lparr>success = False, data = [], error = ''API not initialized''\<rparr> w),
      s,
      snd (req_callback request
             \<lparr>success = False, data = [], error = ''API not initialized''\<rparr> w))"
  by (simp add: handleRequest_def split_beta)

theorem uninitialized_gateway_refuses_witness:
  "\<not> initialized (API_Impl_new 0 :: APIResponse list API_Impl)
   \<and> handleRequest (sample_request ''getApiLevel'') 5 (API_Impl_new 0) []
       = (None, API_Impl_new 0,
          [\<lparr>success = False, data = [], error = ''API not initialized''\<rparr>])"
proof -
  have fresh: "\<not> initialized (API_Impl_new 0 :: APIResponse list API_Impl)"
    by (rule API_Impl_new_uninitialized)
  show ?thesis
    using uninitialized_gateway_refuses [OF fresh, of "sample_request ''getApiLevel''" 5 "[]"]
          fresh
    by (simp add: sample_request_def recording_callback_def)
qed

lemma sample_gateway_eq:
  "sample_gateway =
     (registerHandler ''fail'' (ClientHandler throw_runtime_error)
        (registerHandler ''explode'' (ClientHandler throw_other) (API_Impl_new 0)))
       \<lparr>api_package_name := ''com.example.test'', api_version_name := ''1.0.0'',
        api_version_code := 1, min_sdk_level := ANDROID_10, target_sdk_level := ANDROID_13,
        initialized := True\<rparr>"
  by (simp add: sample_gateway_def initialize_def sample_config_def API_Impl_new_def
        registerDefaultHandlers_def registerHandler_def)

lemma sample_gateway_fields:
  "initialized sample_gateway"
  "api_calls_count sample_gateway = 0"
  "last_rate_reset sample_gateway = 0"
  "handlers sample_gateway ''fail'' = Some (ClientHandler throw_runtime_error)"
  "handlers sample_gateway ''explode'' = Some (ClientHandler throw_other)"
  by (simp_all add: sample_gateway_eq API_Impl_new_def registerDefaultHandlers_def
        registerHandler_def)

lemma sample_gateway_admits:
  "checkRateLimit 5 sample_gateway = (True, sample_gateway\<lparr>api_calls_count := 1\<rparr>)"
  by (simp add: checkRateLimit_def sample_gateway_fields duration_cast_seconds_def
        MAX_API_CALLS_PER_SECOND_def)

text \<open>
  C6, as amended. On an initialised gateway, for an admitted request whose method has a
  registered handler: when the handler lets out a fault of the \<^verbatim>\<open>std::exception\<close>
  family with message \<open>what\<close>, \<open>handleRequest\<close> catches it and calls the request's
  callback with the failure response whose error is "Handler error: " followed by
  \<open>what\<close>, on the gateway and host as the handler left them. The handler's fault does
  not reach the caller: what leaves \<open>handleRequest\<close> is what that callback call lets out,
  nothing when the callback returns. When the handler lets out an object that is not a
  \<^verbatim>\<open>std::exception\<close>, that object leaves \<open>handleRequest\<close> and the callback is not
  called: gateway and host are as the handler left them.
\<close>

theorem handler_std_exception_caught:
  assumes "initialized s"
    and "checkRateLimit now s = (True, s1)"
    and "handlers s1 (req_method request) = Some h"
  shows "(run_handler h request s1 w = (Some (StdException what), s2, w2) \<longrightarrow>
          handleRequest request now s w =
            (fst (req_callback request
                    \<lparr>success = False, data = [], error = ''Handler error: '' @ what\<rparr> w2),
             s2,
             snd (req_callback request
                    \<lparr>success = False, data = [], error = ''Handler error: '' @ what\<rparr> w2)))
       \<and> (run_handler h request s1 w = (Some OtherThrow, s2, w2) \<longrightarrow>
          handleRequest request now s w = (Some OtherThrow, s2, w2))"
  using assms by (simp add: handleRequest_def split_beta)

theorem handler_std_exception_caught_witness:
  "initialized sample_gateway
   \<and> checkRateLimit 5 sample_gateway = (True, sample_gateway\<lparr>api_calls_count := 1\<rparr>)
   \<and> handlers (sample_gateway\<lparr>api_calls_count := 1\<rparr>) (req_method (sample_request ''fail''))
       = Some (ClientHandler throw_runtime_error)
   \<and> run_handler (ClientHandler throw_runtime_error) (sample_request ''fail'')
       (sample_gateway\<lparr>api_calls_count := 1\<rparr>) []
       = (Some (StdException ''boom''), sample_gateway\<lparr>api_calls_count := 1\<rparr>, [])
   \<and> handleRequest (sample_request ''fail'') 5 sample_gateway []
       = (None, sample_gateway\<lparr>api_calls_count := 1\<rparr>,
          [\<lparr>success = False, data = [], error = ''Handler error: boom''\<rparr>])
   \<and> handlers (sample_gateway\<lparr>api_calls_count := 1\<rparr>)
       (req_method (sample_request ''explode''))
       = Some (ClientHandler throw_other)
   \<and> run_handler (ClientHandler throw_other) (sample_request ''explode'')
       (sample_gateway\<lparr>api_calls_count := 1\<rparr>) []
       = (Some OtherThrow, sample_gateway\<lparr>api_calls_count := 1\<rparr>, [])
   \<and> handleRequest (sample_request ''explode'') 5 sample_gateway []
       = (Some OtherThrow, sample_gateway\<lparr>api_calls_count := 1\<rparr>, [])"
proof -
  have init: "initialized sample_gateway"
    by (rule sample_gateway_fields(1))
  have fail: "handlers (sample_gateway\<lparr>api_calls_count := 1\<rparr>)
                (req_method (sample_request ''fail''))
              = Some (ClientHandler throw_runtime_error)"
    by (simp add: sample_gateway_fields sample_request_def)
  have explode: "handlers (sample_gateway\<lparr>api_calls_count := 1\<rparr>)
                   (req_method (sample_request ''explode''))
                 = Some (ClientHandler throw_other)"
    by (simp add: sample_gateway_fields sample_request_def)
  have run_fail: "run_handler (ClientHandler throw_runtime_error) (sample_request ''fail'')
                    (sample_gateway\<lparr>api_calls_count := 1\<rparr>) []
                  = (Some (StdException ''boom''), sample_gateway\<lparr>api_calls_count := 1\<rparr>, [])"
    by (simp add: throw_runtime_error_def)
  have run_explode: "run_handler (ClientHandler throw_other) (sample_request ''explode'')
                       (sample_gateway\<lparr>api_calls_count := 1\<rparr>) []
                     = (Some OtherThrow, sample_gateway\<lparr>api_calls_count := 1\<rparr>, [])"
    by (simp add: throw_other_def)
  show ?thesis
    using handler_std_exception_caught
            [OF init sample_gateway_admits fail, of "[]" "''boom''"
               "sample_gateway\<lparr>api_calls_count := 1\<rparr>" "[]"]
          handler_std_exception_caught
            [OF init sample_gateway_admits explode, of "[]" "''boom''"
               "sample_gateway\<lparr>api_calls_count := 1\<rparr>" "[]"]
          init sample_gateway_admits fail explode run_fail run_explode
    by (simp add: sample_request_def recording_callback_def)
qed

text \<open>
  C6 as first stated, for every fault a handler raises, fails for a thrown object that
  is not a \<^verbatim>\<open>std::exception\<close>: the registered handler of "explode" throws one, the
  \<^verbatim>\<open>catch\<close> clause does not match, the fault leaves \<open>handleRequest\<close> and the callback
  has received nothing.
\<close>

theorem handler_other_throw_counterexample:
  "run_handler (ClientHandler throw_other) (sample_request ''explode'')
     (sample_gateway\<lparr>api_calls_count := 1\<rparr>) []
     = (Some OtherThrow, sample_gateway\<lparr>api_calls_count := 1\<rparr>, [])
   \<and> fst (handleRequest (sample_request ''explode'') 5 sample_gateway []) = Some OtherThrow
   \<and> snd (snd (handleRequest (sample_request ''explode'') 5 sample_gateway [])) = []"
  by (simp add: handleRequest_def sample_gateway_fields sample_gateway_admits
        sample_request_def throw_other_def)

section \<open>Loading a package and tearing the loader down\<close>

lemma MAP_FAILED_unaligned: "MAP_FAILED AND 4095 \<noteq> 0"
  by (simp add: MAP_FAILED_def)

lemma MAP_FAILED_not_null: "MAP_FAILED \<noteq> nullptr"
  by (simp add: MAP_FAILED_def nullptr_def)

text \<open>What holds of \<open>loadApk\<close>: when it reports a missing file, and when it reports success.\<close>

lemma loadApk_missing_path:
  "fs_exists e path = Inr False \<Longrightarrow> fst (loadApk e path s w) = InvalidApk"
  by (simp add: loadApk_def updateState_def)

lemma loadApk_Success_iff:
  "fst (loadApk e path s w) = Success \<longleftrightarrow>
     fs_exists e path = Inr True \<and>
     (\<exists>z. zip_open_result e path = Some z \<and>
        (case classes_dex z of
           None \<Rightarrow> True
         | Some st \<Rightarrow> st_size st \<noteq> 0 \<and> mmap_result e (st_size st) \<noteq> MAP_FAILED))"
  by (auto simp add: loadApk_def extractDex_def updateState_def mmap_anon_def Let_def
        split: sum.splits bool.splits option.splits prod.splits if_splits)

text \<open>
  C1, at the inputs where the code departs from it. An archive that exists and opens
  but has no entry \<^verbatim>\<open>classes.dex\<close>: \<open>loadApk\<close> on a fresh loader returns \<open>Success\<close>,
  the bytecode pointer is still null and nothing is mapped. An archive whose entry is
  found but cannot be opened for reading: \<open>loadApk\<close> returns \<open>Success\<close> and the region
  holds the zeros of the fresh mapping, no byte of the entry.
\<close>

theorem loadApk_succeeds_without_bytecode:
  "fst (loadApk env_no_dex ''app.apk'' Executor_Impl_new host_empty) = Success
   \<and> dex_data (fst (snd (loadApk env_no_dex ''app.apk'' Executor_Impl_new host_empty))) = nullptr
   \<and> regions (snd (snd (loadApk env_no_dex ''app.apk'' Executor_Impl_new host_empty))) = Map.empty
   \<and> fst (loadApk env_fopen_fails ''app.apk'' Executor_Impl_new host_empty) = Success
   \<and> regions (snd (snd (loadApk env_fopen_fails ''app.apk'' Executor_Impl_new host_empty)))
       0x7F0000000000 = Some (replicate 4 0)"
  by (simp add: loadApk_def extractDex_def updateState_def mmap_anon_def env_no_dex_def
        env_fopen_fails_def env_with_dex_def sample_entry_def Executor_Impl_new_def host_empty_def
        MAP_FAILED_def nullptr_def)

lemma foldl_dlclose_regions:
  "regions (foldl (\<lambda>w' lib. dlclose lib w') w libs) = regions w"
  by (induction libs arbitrary: w) (simp_all add: dlclose_def)

lemma foldl_dlclose_refs:
  "dl_refs (foldl (\<lambda>w' lib. dlclose lib w') w libs) lib = dl_refs w lib - count_list libs lib"
  by (induction libs arbitrary: w) (simp_all add: dlclose_def)

lemma destroy_regions:
  "regions (Executor_Impl_destroy s w) =
     (if dex_data s \<noteq> nullptr \<and> dex_data s AND 4095 = 0
      then (regions w)(dex_data s := None) else regions w)"
  by (simp add: Executor_Impl_destroy_def foldl_dlclose_regions munmap_def Let_def)

text \<open>
  A load that fails maps nothing: it leaves the mappings as they were, and the bytecode
  pointer either as it was or at \<open>MAP_FAILED\<close>.
\<close>

lemma failed_load_frame:
  assumes "fst (loadApk e path s w) \<noteq> Success"
  shows "regions (snd (snd (loadApk e path s w))) = regions w"
    and "dex_data (fst (snd (loadApk e path s w))) = dex_data s
         \<or> dex_data (fst (snd (loadApk e path s w))) = MAP_FAILED"
  using assms
  by (auto simp add: loadApk_def extractDex_def updateState_def mmap_anon_def Let_def
        split: sum.splits bool.splits option.splits prod.splits if_splits)

text \<open>
  What the destructor does release. It does the same whatever the execution state
  \<open>es\<close>. It unmaps the region the bytecode pointer points to when that pointer is a
  non-null, page-aligned address, and gives up one reference of a library handle \<open>lib\<close>
  for each time the loader holds it. After a load that did not return \<open>Success\<close> it
  leaves no mapping that was not there before the load; when the loader was fresh, it
  leaves the mappings exactly as they were before the load. None of this covers a region
  the loader mapped earlier and no longer points to: see the evaluation that follows.
\<close>

theorem teardown_releases_resources:
  "Executor_Impl_destroy (s\<lparr>ex_state := es\<rparr>) w = Executor_Impl_destroy s w
   \<and> (dex_data s \<noteq> nullptr \<and> dex_data s AND 4095 = 0 \<longrightarrow>
        regions (Executor_Impl_destroy s w) (dex_data s) = None)
   \<and> dl_refs (Executor_Impl_destroy s w) lib = dl_refs w lib - count_list (loaded_libs s) lib
   \<and> (fst (loadApk e path s w) \<noteq> Success \<longrightarrow>
        (\<forall>p. regions (Executor_Impl_destroy (fst (snd (loadApk e path s w)))
                        (snd (snd (loadApk e path s w)))) p \<noteq> None
             \<longrightarrow> regions w p \<noteq> None))
   \<and> (fst (loadApk e path Executor_Impl_new w) \<noteq> Success \<longrightarrow>
        regions (Executor_Impl_destroy (fst (snd (loadApk e path Executor_Impl_new w)))
                   (snd (snd (loadApk e path Executor_Impl_new w)))) = regions w)"
proof (intro conjI impI allI)
  show "Executor_Impl_destroy (s\<lparr>ex_state := es\<rparr>) w = Executor_Impl_destroy s w"
    by (simp add: Executor_Impl_destroy_def)
next
  assume "dex_data s \<noteq> nullptr \<and> dex_data s AND 4095 = 0"
  then show "regions (Executor_Impl_destroy s w) (dex_data s) = None"
    by (simp add: destroy_regions)
next
  show "dl_refs (Executor_Impl_destroy s w) lib = dl_refs w lib - count_list (loaded_libs s) lib"
    by (simp add: Executor_Impl_destroy_def Let_def foldl_dlclose_refs munmap_def)
next
  fix p
  assume failed: "fst (loadApk e path s w) \<noteq> Success"
    and live: "regions (Executor_Impl_destroy (fst (snd (loadApk e path s w)))
                        (snd (snd (loadApk e path s w)))) p \<noteq> None"
  from live have "regions (snd (snd (loadApk e path s w))) p \<noteq> None"
    by (simp add: destroy_regions split: if_splits)
  then show "regions w p \<noteq> None"
    using failed_load_frame(1) [OF failed] by simp
next
  assume failed: "fst (loadApk e path Executor_Impl_new w) \<noteq> Success"
  have "dex_data (fst (snd (loadApk e path Executor_Impl_new w))) = nullptr
        \<or> dex_data (fst (snd (loadApk e path Executor_Impl_new w))) = MAP_FAILED"
    using failed_load_frame(2) [OF failed] by (simp add: Executor_Impl_new_def)
  then show "regions (Executor_Impl_destroy (fst (snd (loadApk e path Executor_Impl_new w)))
                   (snd (snd (loadApk e path Executor_Impl_new w)))) = regions w"
    using failed_load_frame(1) [OF failed] MAP_FAILED_unaligned
    by (auto simp add: destroy_regions)
qed

lemma loader_holding_fields:
  "dex_data loader_holding = 0x7F0000000000"
  "dex_size loader_holding = 4"
  "loaded_libs loader_holding = []"
  "event_callback loader_holding = False"
  by (simp_all add: loader_holding_def loadApk_def extractDex_def updateState_def mmap_anon_def
        zip_fread_def Let_def
        env_with_dex_def sample_entry_def Executor_Impl_new_def host_empty_def MAP_FAILED_def)

lemma host_holding_regions:
  "regions host_holding = [0x7F0000000000 \<mapsto> [100, 101, 120, 10]]"
  by (simp add: host_holding_def loadApk_def extractDex_def updateState_def mmap_anon_def
        zip_fread_def Let_def env_with_dex_def sample_entry_def Executor_Impl_new_def
        host_empty_def MAP_FAILED_def)

text \<open>
  Three runs: a loader that holds the four bytes of a loaded entry is torn down; a fresh
  loader is torn down after a load that failed because the kernel refused the mapping;
  the holding loader is torn down after a load that failed on a missing file.
\<close>

theorem teardown_releases_resources_witness:
  "dex_data loader_holding \<noteq> nullptr \<and> dex_data loader_holding AND 4095 = 0
   \<and> regions host_holding (dex_data loader_holding) = Some [100, 101, 120, 10]
   \<and> regions (Executor_Impl_destroy loader_holding host_holding) (dex_data loader_holding) = None
   \<and> fst (loadApk env_mmap_refused ''app.apk'' Executor_Impl_new host_empty) = RuntimeError
   \<and> regions (Executor_Impl_destroy
                 (fst (snd (loadApk env_mmap_refused ''app.apk'' Executor_Impl_new host_empty)))
                 (snd (snd (loadApk env_mmap_refused ''app.apk'' Executor_Impl_new host_empty))))
       = regions host_empty
   \<and> fst (loadApk env_missing_file ''app.apk'' loader_holding host_holding) = InvalidApk
   \<and> regions (Executor_Impl_destroy
                 (fst (snd (loadApk env_missing_file ''app.apk'' loader_holding host_holding)))
                 (snd (snd (loadApk env_missing_file ''app.apk'' loader_holding host_holding))))
       = Map.empty"
proof -
  have failed1:
    "fst (loadApk env_mmap_refused ''app.apk'' Executor_Impl_new host_empty) = RuntimeError"
    by (simp add: loadApk_def extractDex_def updateState_def mmap_anon_def env_mmap_refused_def
          env_with_dex_def sample_entry_def)
  have failed2:
    "fst (loadApk env_missing_file ''app.apk'' loader_holding host_holding) = InvalidApk"
    by (simp add: loadApk_def updateState_def env_missing_file_def env_with_dex_def)
  have after2:
    "fst (snd (loadApk env_missing_file ''app.apk'' loader_holding host_holding))
       = loader_holding\<lparr>ex_state := ES_Error, last_error := ''APK file not found''\<rparr>"
    "snd (snd (loadApk env_missing_file ''app.apk'' loader_holding host_holding))
       = host_holding"
    by (simp_all add: loadApk_def updateState_def env_missing_file_def env_with_dex_def
          loader_holding_fields)
  have aligned: "dex_data loader_holding \<noteq> nullptr \<and> dex_data loader_holding AND 4095 = 0"
    by (simp add: loader_holding_fields nullptr_def)
  show ?thesis
    using teardown_releases_resources
            [where s = loader_holding and es = ES_Error and w = host_holding and lib = 0
               and e = env_missing_file and path = "''app.apk''"]
          teardown_releases_resources
            [where s = Executor_Impl_new and es = ES_Error and w = host_empty and lib = 0
               and e = env_mmap_refused and path = "''app.apk''"]
          failed1 failed2 aligned
    by (simp add: after2 destroy_regions loader_holding_fields host_holding_regions nullptr_def)
qed

lemma refused_load_on_holding_loader:
  assumes "zip_open_result e path = Some \<lparr>classes_dex = Some st\<rparr>"
    and "fs_exists e path = Inr True"
    and "st_size st = 0 \<or> mmap_result e (st_size st) = MAP_FAILED"
  shows "fst (loadApk e path loader_holding host_holding) = RuntimeError"
    and "dex_data (fst (snd (loadApk e path loader_holding host_holding))) = MAP_FAILED"
    and "loaded_libs (fst (snd (loadApk e path loader_holding host_holding))) = []"
    and "regions (snd (snd (loadApk e path loader_holding host_holding))) = regions host_holding"
  using assms
  by (auto simp add: loadApk_def extractDex_def updateState_def mmap_anon_def Let_def
        loader_holding_fields)

text \<open>
  C4, at the input where the code departs from it. A loader has loaded a package and
  holds its four bytes of bytecode in the region at \<open>0x7F0000000000\<close>. A second
  \<open>loadApk\<close> finds an archive whose \<^verbatim>\<open>classes.dex\<close> has length zero, so
  \<^verbatim>\<open>mmap\<close> refuses the mapping (or, second run, the kernel refuses a mapping of four
  bytes): the load returns \<open>RuntimeError\<close>, and \<open>extractDex\<close> has already stored
  \<open>MAP_FAILED\<close> over the bytecode pointer. The destructor then passes \<open>MAP_FAILED\<close>
  to \<^verbatim>\<open>munmap\<close>, which refuses it, and the region of the first load is still mapped
  after teardown.
\<close>

theorem teardown_leaks_after_refused_mapping:
  "dex_data loader_holding = 0x7F0000000000
   \<and> regions host_holding 0x7F0000000000 = Some [100, 101, 120, 10]
   \<and> fst (loadApk env_empty_dex ''app.apk'' loader_holding host_holding) = RuntimeError
   \<and> dex_data (fst (snd (loadApk env_empty_dex ''app.apk'' loader_holding host_holding)))
       = MAP_FAILED
   \<and> regions (Executor_Impl_destroy
                 (fst (snd (loadApk env_empty_dex ''app.apk'' loader_holding host_holding)))
                 (snd (snd (loadApk env_empty_dex ''app.apk'' loader_holding host_holding))))
       0x7F0000000000 = Some [100, 101, 120, 10]
   \<and> fst (loadApk env_mmap_refused ''app.apk'' loader_holding host_holding) = RuntimeError
   \<and> dex_data (fst (snd (loadApk env_mmap_refused ''app.apk'' loader_holding host_holding)))
       = MAP_FAILED
   \<and> regions (Executor_Impl_destroy
                 (fst (snd (loadApk env_mmap_refused ''app.apk'' loader_holding host_holding)))
                 (snd (snd (loadApk env_mmap_refused ''app.apk'' loader_holding host_holding))))
       0x7F0000000000 = Some [100, 101, 120, 10]"
proof -
  have empty:
    "zip_open_result env_empty_dex ''app.apk''
       = Some \<lparr>classes_dex = Some \<lparr>st_size = 0, fopen_ok = True, fread_bytes = []\<rparr>\<rparr>"
    "fs_exists env_empty_dex ''app.apk'' = Inr True"
    by (simp_all add: env_empty_dex_def env_with_dex_def)
  have refused:
    "zip_open_result env_mmap_refused ''app.apk'' = Some \<lparr>classes_dex = Some sample_entry\<rparr>"
    "fs_exists env_mmap_refused ''app.apk'' = Inr True"
    "mmap_result env_mmap_refused (st_size sample_entry) = MAP_FAILED"
    by (simp_all add: env_mmap_refused_def env_with_dex_def)
  note run1 = refused_load_on_holding_loader [OF empty(1) empty(2)]
  note run2 = refused_load_on_holding_loader [OF refused(1) refused(2)]
  show ?thesis
    using MAP_FAILED_unaligned
    by (simp add: run1 run2 refused(3) destroy_regions loader_holding_fields
          host_holding_regions)
qed

section \<open>Starting an activity on the runtime\<close>

lemma startActivity_not_ready:
  "rt_state s \<noteq> RS_Ready \<Longrightarrow>
   startActivity alloc_fault name saved s tr = (RT_RuntimeError, s, tr)"
  by (simp add: startActivity_def)

lemma startActivity_ready:
  "rt_state s = RS_Ready \<Longrightarrow>
   startActivity alloc_fault name saved s tr =
     (case alloc_fault name of
        None \<Rightarrow>
          (RT_Success,
           s\<lparr>loaded_classes := loaded_classes s @ [name], rt_state := RS_Running\<rparr>,
           log (''Loading class: '' @ name) s (log (''Starting activity: '' @ name) s tr))
      | Some what \<Rightarrow>
          (RT_ClassNotFound, s,
           log (''Error loading class: '' @ what) s
             (log (''Loading class: '' @ name) s (log (''Starting activity: '' @ name) s tr))))"
  by (simp add: startActivity_def loadClass_def Let_def split: option.splits)

lemma runtime_ready_eq:
  "runtime_ready =
     Runtime_Impl_new
       \<lparr>rt_config := sample_runtime_config,
        loaded_classes := core_classes,
        native_methods := map_of native_funcs,
        rt_state := RS_Ready\<rparr>"
  by (simp add: runtime_ready_def rt_initialize_def initializeVM_def loadCoreClasses_def
        registerNativeMethods_def core_classes_def native_funcs_def loadClass_def
        registerNativeMethod_def no_alloc_fault_def log_def Runtime_Impl_new_def Let_def
        fun_upd_twist)

text \<open>
  C5, at the input where the code departs from it. On the runtime as
  \<open>rt_initialize\<close> leaves it (state \<open>Ready\<close>, the four core classes loaded, no event
  callback), \<open>startActivity\<close> of a main activity returns \<open>Success\<close> having done two
  things: the name is appended to the list of loaded classes and the state is \<open>Running\<close>.
  No other member changes and nothing is logged; no component is constructed and no
  lifecycle call is made.
\<close>

theorem startActivity_only_records_class:
  "rt_state runtime_ready = RS_Ready
   \<and> startActivity no_alloc_fault ''com.example.test.MainActivity'' nullptr runtime_ready []
       = (RT_Success,
          runtime_ready\<lparr>loaded_classes := core_classes @ [''com.example.test.MainActivity''],
                        rt_state := RS_Running\<rparr>,
          [])"
  by (simp add: runtime_ready_eq startActivity_def loadClass_def log_def no_alloc_fault_def
        Runtime_Impl_new_def)

end
